theory Spec2Isabelle
  imports Main "HOL-Library.AList" "HOL-Library.Char_ord" "HOL-Library.List_Lexorder"
begin

section \<open>JSON values and the Python operations on them\<close>

text \<open>
  The values that \<^verbatim>\<open>json.load\<close> produces, without floating-point numbers: \<^verbatim>\<open>None\<close>,
  \<^verbatim>\<open>bool\<close>, unbounded \<^verbatim>\<open>int\<close>, \<^verbatim>\<open>str\<close>, \<^verbatim>\<open>list\<close> and \<^verbatim>\<open>dict\<close>.
  A Python \<^verbatim>\<open>dict\<close> keeps its keys in insertion order, so it is an association list;
  a key is looked up with \<open>map_of\<close>, and \<^verbatim>\<open>d[k] = v\<close> is \<open>AList.update\<close> (the value is
  replaced in place when the key is present, and appended otherwise).
\<close>

datatype json =
    JNull
  | JBool bool
  | JInt int
  | JStr string
  | JList "json list"
  | JObj "(string \<times> json) list"

type_synonym pydict = "(string \<times> json) list"

datatype error =
    KeyError | TypeError | AttributeError | ValueError
  | FileNotFoundError | OSError | UnicodeDecodeError

text \<open>\<^verbatim>\<open>k in d\<close>, \<^verbatim>\<open>d.get(k)\<close> (\<^verbatim>\<open>None\<close> when the key is absent) and
  \<^verbatim>\<open>d.update(u)\<close>.\<close>

definition dict_has :: "string \<Rightarrow> (string \<times> 'v) list \<Rightarrow> bool" where
  "dict_has k d = (map_of d k \<noteq> None)"

definition dict_get :: "pydict \<Rightarrow> string \<Rightarrow> json" where
  "dict_get d k = (case map_of d k of None \<Rightarrow> JNull | Some v \<Rightarrow> v)"

definition dict_update :: "pydict \<Rightarrow> pydict \<Rightarrow> pydict" where
  "dict_update u d = fold (\<lambda>(k, v). AList.update k v) u d"

text \<open>
  Python's \<^verbatim>\<open>==\<close> on these values: \<^verbatim>\<open>bool\<close> is a subclass of \<^verbatim>\<open>int\<close>
  (\<^verbatim>\<open>True == 1\<close>), lists are compared element by element, and two dicts are equal when
  they have the same number of keys and every key of the first has an equal value in the
  second, whatever the order of the keys.
\<close>

fun py_eq :: "json \<Rightarrow> json \<Rightarrow> bool"
  and py_eq_list :: "json list \<Rightarrow> json list \<Rightarrow> bool"
  and py_eq_items :: "(string \<times> json) list \<Rightarrow> (string \<times> json) list \<Rightarrow> bool" where
  "py_eq JNull JNull = True"
| "py_eq (JBool a) (JBool b) = (a = b)"
| "py_eq (JBool a) (JInt n) = ((if a then 1 else 0) = n)"
| "py_eq (JInt m) (JBool b) = (m = (if b then 1 else 0))"
| "py_eq (JInt m) (JInt n) = (m = n)"
| "py_eq (JStr s) (JStr t) = (s = t)"
| "py_eq (JList xs) (JList ys) = py_eq_list xs ys"
| "py_eq (JObj xs) (JObj ys) = (length xs = length ys \<and> py_eq_items xs ys)"
| "py_eq _ _ = False"
| "py_eq_list [] [] = True"
| "py_eq_list (x # xs) (y # ys) = (py_eq x y \<and> py_eq_list xs ys)"
| "py_eq_list _ _ = False"
| "py_eq_items [] ys = True"
| "py_eq_items ((k, v) # xs) ys =
     ((case map_of ys k of None \<Rightarrow> False | Some w \<Rightarrow> py_eq v w) \<and> py_eq_items xs ys)"

text \<open>\<^verbatim>\<open>x in xs\<close> and \<^verbatim>\<open>xs.remove(x)\<close> on a Python list compare with \<^verbatim>\<open>==\<close>;
  \<^verbatim>\<open>remove\<close> deletes the first equal element.\<close>

definition py_in :: "json \<Rightarrow> json list \<Rightarrow> bool" where
  "py_in x xs = list_ex (\<lambda>y. py_eq y x) xs"

fun py_remove :: "json \<Rightarrow> json list \<Rightarrow> json list" where
  "py_remove x [] = []"
| "py_remove x (y # ys) = (if py_eq y x then ys else y # py_remove x ys)"

subsection \<open>\<^verbatim>\<open>str\<close> and \<^verbatim>\<open>json.dumps(value, sort_keys=True)\<close>\<close>

definition digit_char :: "nat \<Rightarrow> char" where
  "digit_char n = ''0123456789abcdef'' ! n"

fun str_nat :: "nat \<Rightarrow> string" where
  "str_nat n = (if n < 10 then [digit_char n] else str_nat (n div 10) @ [digit_char (n mod 10)])"

definition str_int :: "int \<Rightarrow> string" where
  "str_int i = (if i < 0 then CHR ''-'' # str_nat (nat (- i)) else str_nat (nat i))"

text \<open>The escapes of \<^verbatim>\<open>json.dumps\<close> with \<^verbatim>\<open>ensure_ascii\<close>: the quote and the backslash,
  the short forms of five control characters, and \<^verbatim>\<open>\u00XX\<close> for every other character
  outside the printable ASCII range.\<close>

definition escape_char :: "char \<Rightarrow> string" where
  "escape_char c =
     (if c = CHR 0x22 then [CHR 0x5C, CHR 0x22]
      else if c = CHR 0x5C then [CHR 0x5C, CHR 0x5C]
      else if c = CHR 0x0A then [CHR 0x5C, CHR ''n'']
      else if c = CHR 0x0D then [CHR 0x5C, CHR ''r'']
      else if c = CHR 0x09 then [CHR 0x5C, CHR ''t'']
      else if c = CHR 0x08 then [CHR 0x5C, CHR ''b'']
      else if c = CHR 0x0C then [CHR 0x5C, CHR ''f'']
      else if (of_char c :: nat) < 32 \<or> 126 < (of_char c :: nat)
        then [CHR 0x5C, CHR ''u'', CHR ''0'', CHR ''0'',
              digit_char (of_char c div 16), digit_char (of_char c mod 16)]
      else [c])"

definition dumps_str :: "string \<Rightarrow> string" where
  "dumps_str s = CHR 0x22 # concat (map escape_char s) @ [CHR 0x22]"

fun join_with :: "string \<Rightarrow> string list \<Rightarrow> string" where
  "join_with sep [] = []"
| "join_with sep [x] = x"
| "join_with sep (x # y # ys) = x @ sep @ join_with sep (y # ys)"

fun json_dumps :: "json \<Rightarrow> string" where
  "json_dumps JNull = ''null''"
| "json_dumps (JBool b) = (if b then ''true'' else ''false'')"
| "json_dumps (JInt i) = str_int i"
| "json_dumps (JStr s) = dumps_str s"
| "json_dumps (JList xs) = ''['' @ join_with '', '' (map json_dumps xs) @ '']''"
| "json_dumps (JObj kvs) =
     ''{'' @ join_with '', ''
        (map (\<lambda>(k, v). dumps_str k @ '': '' @ json_dumps v) (sort_key fst kvs)) @ ''}''"

text \<open>\<^verbatim>\<open>Index._get_indexable_value\<close>: a list or a dict is serialised with sorted keys,
  anything else goes through \<^verbatim>\<open>str\<close>.\<close>

fun get_indexable_value :: "json \<Rightarrow> string" where
  "get_indexable_value (JList xs) = json_dumps (JList xs)"
| "get_indexable_value (JObj kvs) = json_dumps (JObj kvs)"
| "get_indexable_value JNull = ''None''"
| "get_indexable_value (JBool b) = (if b then ''True'' else ''False'')"
| "get_indexable_value (JInt i) = str_int i"
| "get_indexable_value (JStr s) = s"

section \<open>\<^verbatim>\<open>Index\<close>: the index of one field\<close>

text \<open>
  \<^verbatim>\<open>Index.index\<close> is a dict from the normalised value to the list of document ids.
  The file \<^verbatim>\<open>{collection_path}.{field}.idx\<close> holds what \<^verbatim>\<open>_save_index\<close> wrote, the
  JSON of that dict (\<open>Stored\<close>), or, when something else wrote it, text on which
  \<^verbatim>\<open>json.load\<close> raises \<^verbatim>\<open>JSONDecodeError\<close> (\<open>NotJson\<close>) or bytes that do not
  decode, on which reading raises \<^verbatim>\<open>UnicodeDecodeError\<close> (\<open>NotText\<close>). A file that
  holds JSON of another shape than a dict of lists is not represented.
\<close>

type_synonym index_dict = "(string \<times> json list) list"

datatype idx_file = Stored index_dict | NotJson | NotText

definition find_doc_ids :: "index_dict \<Rightarrow> json \<Rightarrow> json list" where
  "find_doc_ids ix v =
     (case map_of ix (get_indexable_value v) of None \<Rightarrow> [] | Some ids \<Rightarrow> ids)"

text \<open>The two steps that \<^verbatim>\<open>update\<close> and \<^verbatim>\<open>remove\<close> share, for a key that is in the
  index: take the id out of the bucket when it is there, then delete the bucket when it
  is empty.\<close>

definition remove_from_bucket :: "json \<Rightarrow> string \<Rightarrow> index_dict \<Rightarrow> index_dict" where
  "remove_from_bucket doc_id key ix =
     (case map_of ix key of
        None \<Rightarrow> ix
      | Some ids \<Rightarrow>
          (let ids' = (if py_in doc_id ids then py_remove doc_id ids else ids)
           in if ids' = [] then AList.delete key ix else AList.update key ids' ix))"

text \<open>The two steps that \<^verbatim>\<open>update\<close> and \<^verbatim>\<open>add\<close> share: create the bucket when the
  key is new, then append the id unless the bucket has it.\<close>

definition add_to_bucket :: "json \<Rightarrow> string \<Rightarrow> index_dict \<Rightarrow> index_dict" where
  "add_to_bucket doc_id key ix =
     (let ix1 = (if dict_has key ix then ix else AList.update key [] ix);
          ids = (case map_of ix1 key of None \<Rightarrow> [] | Some ids \<Rightarrow> ids)
      in if py_in doc_id ids then ix1 else AList.update key (ids @ [doc_id]) ix1)"

text \<open>Each operation returns the new dict and whether \<^verbatim>\<open>_save_index\<close> ran.\<close>

definition index_add :: "json \<Rightarrow> json \<Rightarrow> index_dict \<Rightarrow> index_dict \<times> bool" where
  "index_add doc_id v ix =
     (if v = JNull then (ix, False)
      else
        (let key = get_indexable_value v;
             ix1 = (if dict_has key ix then ix else AList.update key [] ix);
             ids = (case map_of ix1 key of None \<Rightarrow> [] | Some ids \<Rightarrow> ids)
         in if py_in doc_id ids then (ix1, False)
            else (AList.update key (ids @ [doc_id]) ix1, True)))"

definition index_update :: "json \<Rightarrow> json \<Rightarrow> json \<Rightarrow> index_dict \<Rightarrow> index_dict \<times> bool" where
  "index_update doc_id old_value new_value ix =
     (let old_key = (if old_value \<noteq> JNull then Some (get_indexable_value old_value) else None);
          new_key = (if new_value \<noteq> JNull then Some (get_indexable_value new_value) else None);
          ix1 = (case old_key of
                   None \<Rightarrow> ix
                 | Some k \<Rightarrow> if k \<noteq> [] \<and> dict_has k ix then remove_from_bucket doc_id k ix else ix);
          ix2 = (case new_key of
                   None \<Rightarrow> ix1
                 | Some k \<Rightarrow> if k \<noteq> [] then add_to_bucket doc_id k ix1 else ix1)
      in (ix2, True))"

definition index_remove :: "json \<Rightarrow> json \<Rightarrow> index_dict \<Rightarrow> index_dict \<times> bool" where
  "index_remove doc_id v ix =
     (let key = (if v \<noteq> JNull then Some (get_indexable_value v) else None)
      in case key of
           None \<Rightarrow> (ix, False)
         | Some k \<Rightarrow>
             if k \<noteq> [] \<and> dict_has k ix then (remove_from_bucket doc_id k ix, True)
             else (ix, False))"

text \<open>\<^verbatim>\<open>Index._build_index\<close>: a scan of the collection file. It indexes every document
  that has the field, \<^verbatim>\<open>None\<close> values included, under the document's \<^verbatim>\<open>_id\<close>, and
  appends without looking for duplicates.\<close>

definition build_step :: "string \<Rightarrow> pydict \<Rightarrow> index_dict \<Rightarrow> index_dict" where
  "build_step field document ix =
     (if dict_has field document then
        (let field_value = get_indexable_value (dict_get document field);
             doc_id = dict_get document ''_id'';
             ix1 = (if dict_has field_value ix then ix else AList.update field_value [] ix);
             ids = (case map_of ix1 field_value of None \<Rightarrow> [] | Some ids \<Rightarrow> ids)
         in AList.update field_value (ids @ [doc_id]) ix1)
      else ix)"

definition build_index :: "pydict list \<Rightarrow> string \<Rightarrow> index_dict" where
  "build_index docs field = fold (build_step field) docs []"

section \<open>\<^verbatim>\<open>IndexManager\<close> and the state of a collection\<close>

text \<open>
  \<open>documents\<close> is the content of the collection file, \<open>idx_files\<close> the index files
  that exist beside it (by field name, in the order of the directory listing),
  \<open>unwritable\<close> the index files that cannot be opened for writing, each with the
  exception that \<^verbatim>\<open>open\<close> raises, and \<open>indices\<close> the dict \<^verbatim>\<open>IndexManager.indices\<close>
  of the open handle. The collection file is taken to exist, to hold a JSON list of
  objects and to be writable, so the branches of \<^verbatim>\<open>_read_collection\<close> and
  \<^verbatim>\<open>_build_index\<close> for a missing or unreadable collection file are not part of the
  model.
\<close>

record collection =
  documents :: "pydict list"
  idx_files :: "(string \<times> idx_file) list"
  unwritable :: "(string \<times> error) list"
  indices :: "(string \<times> index_dict) list"

text \<open>
  \<^verbatim>\<open>Index._save_index\<close> opens \<^verbatim>\<open>{collection_path}.{field}.idx\<close> for writing. For a
  field name with a path separator the directory named by the part before it is not
  there, and \<^verbatim>\<open>open\<close> raises \<^verbatim>\<open>FileNotFoundError\<close>; the other files that cannot be
  written are those of \<open>unwritable\<close>. A failed save writes nothing.
\<close>

definition save_error :: "collection \<Rightarrow> string \<Rightarrow> error option" where
  "save_error self field =
     (if CHR ''/'' \<in> set field then Some FileNotFoundError else map_of (unwritable self) field)"

definition save_index :: "collection \<Rightarrow> string \<Rightarrow> index_dict \<Rightarrow> error option \<times> collection" where
  "save_index self field ix =
     (case save_error self field of
        Some e \<Rightarrow> (Some e, self)
      | None \<Rightarrow> (None, self\<lparr>idx_files := AList.update field (Stored ix) (idx_files self)\<rparr>))"

text \<open>\<^verbatim>\<open>Index._build_index\<close> for a new \<^verbatim>\<open>Index\<close>, which is then registered under
  the field. Its \<^verbatim>\<open>except\<close> also catches the \<^verbatim>\<open>FileNotFoundError\<close> of the save and
  leaves the index empty; any other exception of the save leaves the constructor, and
  nothing is registered.\<close>

definition build_new_index :: "collection \<Rightarrow> string \<Rightarrow> error option \<times> collection" where
  "build_new_index self field =
     (let ix = build_index (documents self) field
      in case save_index self field ix of
           (None, self1) \<Rightarrow> (None, self1\<lparr>indices := AList.update field ix (indices self1)\<rparr>)
         | (Some e, self1) \<Rightarrow>
             if e = FileNotFoundError
             then (None, self1\<lparr>indices := AList.update field [] (indices self1)\<rparr>)
             else (Some e, self1))"

text \<open>\<^verbatim>\<open>Index.__init__\<close> with \<^verbatim>\<open>_load_or_build_index\<close>, registered under the field:
  an index file that exists and parses is loaded, one that is missing or on which
  \<^verbatim>\<open>json.load\<close> raises \<^verbatim>\<open>JSONDecodeError\<close> is rebuilt from the documents, and one
  that does not decode makes the constructor raise.\<close>

definition new_index :: "collection \<Rightarrow> string \<Rightarrow> error option \<times> collection" where
  "new_index self field =
     (case map_of (idx_files self) field of
        Some (Stored ix) \<Rightarrow> (None, self\<lparr>indices := AList.update field ix (indices self)\<rparr>)
      | Some NotText \<Rightarrow> (Some UnicodeDecodeError, self)
      | Some NotJson \<Rightarrow> build_new_index self field
      | None \<Rightarrow> build_new_index self field)"




definition ensure_index :: "collection \<Rightarrow> string \<Rightarrow> error option \<times> collection" where
  "ensure_index self field =
     (if dict_has field (indices self) then (None, self) else new_index self field)"

definition drop_index :: "collection \<Rightarrow> string \<Rightarrow> bool \<times> collection" where
  "drop_index self field =
     (if dict_has field (indices self)
      then (True, self\<lparr>idx_files := AList.delete field (idx_files self),
                       indices := AList.delete field (indices self)\<rparr>)
      else (False, self))"

definition list_indices :: "collection \<Rightarrow> string list" where
  "list_indices self = map fst (indices self)"

definition find_by_index :: "collection \<Rightarrow> string \<Rightarrow> json \<Rightarrow> json list" where
  "find_by_index self field v =
     (case map_of (indices self) field of None \<Rightarrow> [] | Some ix \<Rightarrow> find_doc_ids ix v)"

text \<open>The loop \<^verbatim>\<open>for field in self.indices\<close> over the fields still to visit. The body
  changes the index of the field in memory and says whether it then calls
  \<^verbatim>\<open>_save_index\<close>; an exception of the save ends the loop, with the index changed in
  memory, its file as it was and the later indices not reached.\<close>

fun each_index ::
  "(string \<Rightarrow> index_dict \<Rightarrow> index_dict \<times> bool) \<Rightarrow> string list \<Rightarrow> collection
     \<Rightarrow> error option \<times> collection" where
  "each_index body [] self = (None, self)"
| "each_index body (field # rest) self =
     (case map_of (indices self) field of
        None \<Rightarrow> each_index body rest self
      | Some ix \<Rightarrow>
          (let ix1 = fst (body field ix);
               self1 = self\<lparr>indices := AList.update field ix1 (indices self)\<rparr>
           in if snd (body field ix) then
                (case save_index self1 field ix1 of
                   (Some e, self2) \<Rightarrow> (Some e, self2)
                 | (None, self2) \<Rightarrow> each_index body rest self2)
              else each_index body rest self1))"

definition add_to_indices :: "collection \<Rightarrow> json \<Rightarrow> pydict \<Rightarrow> error option \<times> collection" where
  "add_to_indices self doc_id document =
     each_index (\<lambda>field ix.
        if dict_has field document then index_add doc_id (dict_get document field) ix
        else (ix, False)) (list_indices self) self"

definition remove_from_indices ::
  "collection \<Rightarrow> json \<Rightarrow> pydict \<Rightarrow> error option \<times> collection" where
  "remove_from_indices self doc_id document =
     each_index (\<lambda>field ix.
        if dict_has field document then index_remove doc_id (dict_get document field) ix
        else (ix, False)) (list_indices self) self"

definition update_indices ::
  "collection \<Rightarrow> json \<Rightarrow> pydict \<Rightarrow> pydict \<Rightarrow> error option \<times> collection" where
  "update_indices self doc_id old_doc new_doc =
     each_index (\<lambda>field ix.
        (let old_value = dict_get old_doc field; new_value = dict_get new_doc field
         in if \<not> py_eq old_value new_value then index_update doc_id old_value new_value ix
            else (ix, False))) (list_indices self) self"

section \<open>\<^verbatim>\<open>Document\<close>\<close>

text \<open>
  \<^verbatim>\<open>Document.__init__(data, doc_id)\<close>. The three values the constructor draws from its
  environment are parameters: the string of \<^verbatim>\<open>uuid.uuid4()\<close> and the two readings of
  \<^verbatim>\<open>datetime.now().isoformat()\<close>. \<^verbatim>\<open>doc_id or ...\<close> takes the generated id when
  \<^verbatim>\<open>doc_id\<close> is \<^verbatim>\<open>None\<close> or empty.
\<close>

record document =
  data :: pydict
  doc_id :: string

definition new_document ::
  "pydict \<Rightarrow> string option \<Rightarrow> string \<Rightarrow> string \<Rightarrow> string \<Rightarrow> document" where
  "new_document d given uuid4 now1 now2 =
     (let i = (case given of None \<Rightarrow> uuid4 | Some s \<Rightarrow> if s \<noteq> [] then s else uuid4);
          d1 = (if \<not> dict_has ''_id'' d then AList.update ''_id'' (JStr i) d else d);
          d2 = (if \<not> dict_has ''_created_at'' d1
                then AList.update ''_created_at'' (JStr now1) d1 else d1);
          d3 = AList.update ''_updated_at'' (JStr now2) d2
      in \<lparr>data = d3, doc_id = i\<rparr>)"

section \<open>\<^verbatim>\<open>Collection\<close>\<close>


text \<open>\<^verbatim>\<open>Collection.create_index\<close> returns \<^verbatim>\<open>True\<close> unless the constructor of the
  index raises.\<close>

definition create_index :: "collection \<Rightarrow> string \<Rightarrow> (error + bool) \<times> collection" where
  "create_index self field =
     (case ensure_index self field of
        (Some e, self1) \<Rightarrow> (Inl e, self1)
      | (None, self1) \<Rightarrow> (Inr True, self1))"

text \<open>\<^verbatim>\<open>Collection.insert\<close> takes a \<^verbatim>\<open>Document\<close> or a dict and returns
  \<^verbatim>\<open>document.id\<close>. It is \<open>insert_doc\<close> here and \<^verbatim>\<open>Collection.find\<close> is
  \<open>find_docs\<close>, since \<open>insert\<close> and \<open>find\<close> are constants of HOL. The document is
  written to the collection file before the indices are visited, so it is stored also
  when an index save raises.\<close>

datatype insert_arg = Dict pydict | Doc document

definition insert_doc ::
  "collection \<Rightarrow> insert_arg \<Rightarrow> string \<Rightarrow> string \<Rightarrow> string \<Rightarrow> (error + string) \<times> collection" where
  "insert_doc self arg uuid4 now1 now2 =
     (let document = (case arg of Dict d \<Rightarrow> new_document d None uuid4 now1 now2 | Doc x \<Rightarrow> x);
          self1 = self\<lparr>documents := documents self @ [data document]\<rparr>
      in case add_to_indices self1 (JStr (doc_id document)) (data document) of
           (Some e, self2) \<Rightarrow> (Inl e, self2)
         | (None, self2) \<Rightarrow> (Inr (doc_id document), self2))"

text \<open>The test that \<^verbatim>\<open>find\<close>, \<^verbatim>\<open>update\<close> and \<^verbatim>\<open>delete\<close> run on each document:
  every key of the query is in the document with an equal value.\<close>

definition matches :: "pydict \<Rightarrow> pydict \<Rightarrow> bool" where
  "matches query doc =
     list_all (\<lambda>(key, v). dict_has key doc \<and> py_eq (dict_get doc key) v) query"

text \<open>A list or a dict cannot be a member of a Python set, nor be looked up in one.\<close>

fun hashable :: "json \<Rightarrow> bool" where
  "hashable (JList xs) = False"
| "hashable (JObj kvs) = False"
| "hashable v = True"

text \<open>The scan of \<^verbatim>\<open>find\<close>; \<open>ids\<close> is \<^verbatim>\<open>indexed_doc_ids\<close>, \<open>None\<close> when no index
  is used.\<close>

fun find_loop :: "json list option \<Rightarrow> pydict \<Rightarrow> pydict list \<Rightarrow> error + pydict list" where
  "find_loop ids query [] = Inr []"
| "find_loop ids query (doc # docs) =
     (case (case ids of
              None \<Rightarrow> Inr False
            | Some s \<Rightarrow>
                (case map_of doc ''_id'' of
                   None \<Rightarrow> Inl KeyError
                 | Some i \<Rightarrow> if hashable i then Inr (\<not> py_in i s) else Inl TypeError)) of
        Inl e \<Rightarrow> Inl e
      | Inr skip \<Rightarrow>
          if \<not> skip \<and> matches query doc
          then (case find_loop ids query docs of Inl e \<Rightarrow> Inl e | Inr rs \<Rightarrow> Inr (doc # rs))
          else find_loop ids query docs)"

text \<open>\<^verbatim>\<open>Collection.find\<close>. The query is optional; \<^verbatim>\<open>not query\<close> holds for \<^verbatim>\<open>None\<close>
  and for the empty dict, and \<^verbatim>\<open>if indexed_field\<close> fails for the empty field name.\<close>

definition find_docs :: "collection \<Rightarrow> pydict option \<Rightarrow> error + pydict list" where
  "find_docs self query =
     (case query of
        None \<Rightarrow> Inr (documents self)
      | Some q \<Rightarrow>
          if q = [] then Inr (documents self)
          else
            (case List.find (\<lambda>field. field \<in> set (list_indices self)) (map fst q) of
               None \<Rightarrow> find_loop None q (documents self)
             | Some indexed_field \<Rightarrow>
                 if indexed_field = [] then find_loop None q (documents self)
                 else
                   (let ids = find_by_index self indexed_field (dict_get q indexed_field)
                    in if \<not> list_all hashable ids then Inl TypeError
                       else if ids = [] then Inr []
                       else find_loop (Some ids) q (documents self))))"

text \<open>The update applier. \<^verbatim>\<open>isinstance(doc[k], (int, float))\<close> holds for an int and for
  a bool; adding anything but an int or a bool to it raises \<^verbatim>\<open>TypeError\<close>.\<close>

fun py_num :: "json \<Rightarrow> int option" where
  "py_num (JInt n) = Some n"
| "py_num (JBool b) = Some (if b then 1 else 0)"
| "py_num v = None"

fun inc_fields :: "pydict \<Rightarrow> pydict \<Rightarrow> error + pydict" where
  "inc_fields [] doc = Inr doc"
| "inc_fields ((k, v) # kvs) doc =
     (case (if dict_has k doc then py_num (dict_get doc k) else None) of
        Some n \<Rightarrow>
          (case py_num v of
             None \<Rightarrow> Inl TypeError
           | Some m \<Rightarrow> inc_fields kvs (AList.update k (JInt (n + m)) doc))
      | None \<Rightarrow> inc_fields kvs (AList.update k v doc))"

definition apply_update :: "pydict \<Rightarrow> pydict \<Rightarrow> error + pydict" where
  "apply_update update doc =
     (if dict_has ''$set'' update then
        (case dict_get update ''$set'' of
           JObj kvs \<Rightarrow> Inr (fold (\<lambda>(k, v). AList.update k v) kvs doc)
         | _ \<Rightarrow> Inl AttributeError)
      else if dict_has ''$inc'' update then
        (case dict_get update ''$inc'' of
           JObj kvs \<Rightarrow> inc_fields kvs doc
         | _ \<Rightarrow> Inl AttributeError)
      else
        (case map_of doc ''_id'' of
           None \<Rightarrow> Inl KeyError
         | Some i \<Rightarrow> Inr (AList.update ''_id'' i (dict_update update doc))))"

text \<open>The loop of \<^verbatim>\<open>Collection.update\<close> over the documents read from the file, from
  position \<open>i\<close> on. \<open>now i\<close> is the clock reading taken for the document at position
  \<open>i\<close>. An exception (of the update applier or of an index save) leaves the loop with
  the indices as they are by then; the result is the new list of documents and the
  count.\<close>

fun update_loop ::
  "pydict option \<Rightarrow> pydict \<Rightarrow> (nat \<Rightarrow> string) \<Rightarrow> nat \<Rightarrow> pydict list \<Rightarrow> collection
     \<Rightarrow> (error + pydict list \<times> nat) \<times> collection" where
  "update_loop query update now i [] self = (Inr ([], 0), self)"
| "update_loop query update now i (doc # docs) self =
     (case query of
        None \<Rightarrow> (Inl AttributeError, self)
      | Some q \<Rightarrow>
          if matches q doc then
            (case apply_update update doc of
               Inl e \<Rightarrow> (Inl e, self)
             | Inr doc1 \<Rightarrow>
                 (let doc2 = AList.update ''_updated_at'' (JStr (now i)) doc1
                  in case map_of doc2 ''_id'' of
                       None \<Rightarrow> (Inl KeyError, self)
                     | Some new_id \<Rightarrow>
                         (case update_indices self new_id doc doc2 of
                            (Some e, self1) \<Rightarrow> (Inl e, self1)
                          | (None, self1) \<Rightarrow>
                              (case update_loop query update now (Suc i) docs self1 of
                                 (Inl e, self') \<Rightarrow> (Inl e, self')
                               | (Inr (ds, n), self') \<Rightarrow> (Inr (doc2 # ds, Suc n), self')))))
          else
            (case update_loop query update now (Suc i) docs self of
               (Inl e, self') \<Rightarrow> (Inl e, self')
             | (Inr (ds, n), self') \<Rightarrow> (Inr (doc # ds, n), self')))"

definition update ::
  "collection \<Rightarrow> pydict option \<Rightarrow> pydict \<Rightarrow> (nat \<Rightarrow> string) \<Rightarrow> (error + nat) \<times> collection" where
  "update self query upd now =
     (case update_loop query upd now 0 (documents self) self of
        (Inl e, self') \<Rightarrow> (Inl e, self')
      | (Inr (ds, updated_count), self') \<Rightarrow>
          (Inr updated_count,
           if updated_count > 0 then self'\<lparr>documents := ds\<rparr> else self'))"

text \<open>\<^verbatim>\<open>Collection.delete\<close>: nothing is done for \<^verbatim>\<open>None\<close> or the empty query;
  otherwise the documents that do not match are written back, and then each deleted
  document is taken out of the indices under its \<^verbatim>\<open>_id\<close>.\<close>

fun remove_deleted :: "pydict list \<Rightarrow> collection \<Rightarrow> error option \<times> collection" where
  "remove_deleted [] self = (None, self)"
| "remove_deleted (doc # docs) self =
     (case map_of doc ''_id'' of
        None \<Rightarrow> (Some KeyError, self)
      | Some i \<Rightarrow>
          (case remove_from_indices self i doc of
             (Some e, self1) \<Rightarrow> (Some e, self1)
           | (None, self1) \<Rightarrow> remove_deleted docs self1))"

definition delete :: "collection \<Rightarrow> pydict option \<Rightarrow> (error + nat) \<times> collection" where
  "delete self query =
     (case query of
        None \<Rightarrow> (Inr 0, self)
      | Some q \<Rightarrow>
          if q = [] then (Inr 0, self)
          else
            (let new_documents = filter (\<lambda>doc. \<not> matches q doc) (documents self);
                 deleted_docs = filter (matches q) (documents self);
                 deleted_count = length (documents self) - length new_documents
             in if deleted_count > 0 then
                  (case remove_deleted deleted_docs (self\<lparr>documents := new_documents\<rparr>) of
                     (Some e, self') \<Rightarrow> (Inl e, self')
                   | (None, self') \<Rightarrow> (Inr deleted_count, self'))
                else (Inr 0, self)))"

section \<open>The properties: states and what the claims speak of\<close>

text \<open>A collection that has just been created: the file holds \<^verbatim>\<open>[]\<close>, there is no
  index file, and every index file with a plain name can be written.\<close>

definition new_collection :: collection where
  "new_collection = \<lparr>documents = [], idx_files = [], unwritable = [], indices = []\<rparr>"

text \<open>The \<^verbatim>\<open>_id\<close> values of the stored documents, in storage order.\<close>

definition doc_ids :: "pydict list \<Rightarrow> json list" where
  "doc_ids docs = map (\<lambda>d. dict_get d ''_id'') docs"

text \<open>The \<^verbatim>\<open>_id\<close> that the document built from a mapping is stored with: the
  mapping's own when it has one, the generated id otherwise.\<close>

definition stored_id :: "pydict \<Rightarrow> string \<Rightarrow> json" where
  "stored_id d uuid4 = (if dict_has ''_id'' d then dict_get d ''_id'' else JStr uuid4)"

text \<open>The bucket of a key, empty when the key is not in the index.\<close>

definition bucket :: "index_dict \<Rightarrow> string \<Rightarrow> json list" where
  "bucket ix k = (case map_of ix k of None \<Rightarrow> [] | Some ids \<Rightarrow> ids)"




text \<open>Whether an update document assigns \<^verbatim>\<open>_id\<close> through the operator it runs.\<close>

definition touches_id :: "pydict \<Rightarrow> bool" where
  "touches_id upd =
     (if dict_has ''$set'' upd then
        (case dict_get upd ''$set'' of JObj kvs \<Rightarrow> dict_has ''_id'' kvs | _ \<Rightarrow> False)
      else if dict_has ''$inc'' upd then
        (case dict_get upd ''$inc'' of JObj kvs \<Rightarrow> dict_has ''_id'' kvs | _ \<Rightarrow> False)
      else False)"


section \<open>Lemmas on the index manager, on \<^verbatim>\<open>insert\<close> and on \<^verbatim>\<open>find\<close>\<close>

lemma documents_save_index [simp]: "documents (snd (save_index st f ix)) = documents st"
  by (simp add: save_index_def split: option.splits)

lemma indices_save_index [simp]: "indices (snd (save_index st f ix)) = indices st"
  by (simp add: save_index_def split: option.splits)

lemma unwritable_save_index [simp]: "unwritable (snd (save_index st f ix)) = unwritable st"
  by (simp add: save_index_def split: option.splits)

lemma list_indices_documents_update [simp]:
  "list_indices (st\<lparr>documents := ds\<rparr>) = list_indices st"
  by (simp add: list_indices_def)

lemma keys_update_present:
  "map_of al k = Some v \<Longrightarrow> map fst (AList.update k v' al) = map fst al"
  by (simp add: update_keys) (metis domI dom_map_of_conv_image_fst image_set)

lemma each_index_keeps:
  "documents (snd (each_index body fs st)) = documents st \<and>
   list_indices (snd (each_index body fs st)) = list_indices st \<and>
   unwritable (snd (each_index body fs st)) = unwritable st"
proof (induction fs arbitrary: st)
  case Nil
  then show ?case by simp
next
  case (Cons f fs)
  show ?case
  proof (cases "map_of (indices st) f")
    case None
    with Cons.IH[of st] show ?thesis by simp
  next
    case (Some ix)
    let ?ix1 = "fst (body f ix)"
    let ?s1 = "st\<lparr>indices := AList.update f ?ix1 (indices st)\<rparr>"
    have k1: "list_indices ?s1 = list_indices st"
      using keys_update_present[OF Some] by (simp add: list_indices_def)
    show ?thesis
    proof (cases "snd (body f ix)")
      case False
      with Some Cons.IH[of ?s1] k1 show ?thesis by (simp add: Let_def)
    next
      case True
      obtain r s2 where sv: "save_index ?s1 f ?ix1 = (r, s2)"
        by (cases "save_index ?s1 f ?ix1")
      have s2: "documents s2 = documents st" "list_indices s2 = list_indices st"
        "unwritable s2 = unwritable st"
        using documents_save_index[of ?s1 f ?ix1] indices_save_index[of ?s1 f ?ix1]
          unwritable_save_index[of ?s1 f ?ix1] k1
        by (simp_all add: sv list_indices_def)
      show ?thesis
      proof (cases r)
        case None
        with Some True sv Cons.IH[of s2] s2 show ?thesis by (simp add: Let_def)
      next
        case (Some e)
        with \<open>map_of (indices st) f = Some ix\<close> True sv s2 show ?thesis by (simp add: Let_def)
      qed
    qed
  qed
qed

lemma documents_add_to_indices [simp]: "documents (snd (add_to_indices st i d)) = documents st"
  by (simp add: add_to_indices_def each_index_keeps)

lemma documents_remove_from_indices [simp]:
  "documents (snd (remove_from_indices st i d)) = documents st"
  by (simp add: remove_from_indices_def each_index_keeps)

lemma documents_update_indices [simp]:
  "documents (snd (update_indices st i d d')) = documents st"
  by (simp add: update_indices_def each_index_keeps)

lemma list_indices_add_to_indices [simp]:
  "list_indices (snd (add_to_indices st i d)) = list_indices st"
  by (simp add: add_to_indices_def each_index_keeps)

lemma documents_insert_doc:
  "documents (snd (insert_doc st (Dict d) u t1 t2)) =
     documents st @ [data (new_document d None u t1 t2)]"
proof -
  let ?doc = "new_document d None u t1 t2"
  let ?s1 = "st\<lparr>documents := documents st @ [data ?doc]\<rparr>"
  obtain r s2 where a: "add_to_indices ?s1 (JStr (doc_id ?doc)) (data ?doc) = (r, s2)"
    by (cases "add_to_indices ?s1 (JStr (doc_id ?doc)) (data ?doc)")
  from documents_add_to_indices[of ?s1 "JStr (doc_id ?doc)" "data ?doc"] a
  have "documents s2 = documents st @ [data ?doc]" by simp
  with a show ?thesis
    by (cases r) (simp_all add: insert_doc_def Let_def)
qed

lemma list_indices_insert_doc [simp]:
  "list_indices (snd (insert_doc st arg u t1 t2)) = list_indices st"
proof -
  let ?doc = "case arg of Dict d \<Rightarrow> new_document d None u t1 t2 | Doc x \<Rightarrow> x"
  let ?s1 = "st\<lparr>documents := documents st @ [data ?doc]\<rparr>"
  obtain r s2 where a: "add_to_indices ?s1 (JStr (doc_id ?doc)) (data ?doc) = (r, s2)"
    by (cases "add_to_indices ?s1 (JStr (doc_id ?doc)) (data ?doc)")
  from list_indices_add_to_indices[of ?s1 "JStr (doc_id ?doc)" "data ?doc"] a
  have "list_indices s2 = list_indices st" by simp
  with a show ?thesis
    by (cases r) (simp_all add: insert_doc_def Let_def)
qed

lemma map_of_new_document:
  "map_of (data (new_document d None u t1 t2)) k =
     (if k = ''_updated_at'' then Some (JStr t2)
      else if k = ''_created_at'' \<and> map_of d k = None then Some (JStr t1)
      else if k = ''_id'' \<and> map_of d k = None then Some (JStr u)
      else map_of d k)"
  by (auto simp: new_document_def Let_def dict_has_def update_conv')

lemma find_loop_None: "find_loop None q docs = Inr (filter (matches q) docs)"
  by (induction docs) auto

lemma find_loop_sound:
  "find_loop ids q docs = Inr rs \<Longrightarrow> set rs \<subseteq> {d \<in> set docs. matches q d}"
proof (induction docs arbitrary: rs)
  case Nil
  then show ?case by simp
next
  case (Cons d docs)
  then show ?case
    by (auto split: option.splits sum.splits if_splits)
qed

lemma matches_single [simp]:
  "matches [(f, v)] d \<longleftrightarrow> dict_has f d \<and> py_eq (dict_get d f) v"
  by (simp add: matches_def)

lemma find_docs_unindexed:
  "f \<notin> set (list_indices st) \<Longrightarrow>
   find_docs st (Some [(f, v)]) = Inr (filter (matches [(f, v)]) (documents st))"
  by (simp add: find_docs_def find_loop_None)

lemma find_docs_sound:
  assumes "find_docs st (Some q) = Inr rs" "q \<noteq> []"
  shows "set rs \<subseteq> {d \<in> set (documents st). matches q d}"
proof -
  from assms have "rs = [] \<or> (\<exists>ids. find_loop ids q (documents st) = Inr rs)"
    by (auto simp: find_docs_def Let_def split: option.splits if_splits)
  then show ?thesis using find_loop_sound by fastforce
qed

lemma py_eq_JNull_iff [simp]: "py_eq x JNull \<longleftrightarrow> x = JNull"
  by (cases x) auto

section \<open>Lemmas on \<^verbatim>\<open>update\<close> and \<^verbatim>\<open>delete\<close>\<close>

lemma map_of_fold_update:
  "k \<notin> fst ` set kvs \<Longrightarrow> map_of (fold (\<lambda>(k, v). AList.update k v) kvs d) k = map_of d k"
  by (induction kvs arbitrary: d) (auto simp: update_conv')

lemma map_of_inc_fields:
  "inc_fields kvs d = Inr d1 \<Longrightarrow> k \<notin> fst ` set kvs \<Longrightarrow> map_of d1 k = map_of d k"
proof (induction kvs d arbitrary: d1 rule: inc_fields.induct)
  case (1 doc)
  then show ?case by simp
next
  case (2 k' v kvs doc)
  then show ?case
    by (auto simp: update_conv' split: option.splits)
qed

lemma dict_has_iff: "dict_has k d \<longleftrightarrow> k \<in> fst ` set d"
  by (simp add: dict_has_def map_of_eq_None_iff)

lemma apply_update_id:
  assumes "\<not> touches_id u" "apply_update u d = Inr d1"
  shows "map_of d1 ''_id'' = map_of d ''_id''"
proof (cases "dict_has ''$set'' u")
  case True
  with assms show ?thesis
    by (auto simp: apply_update_def touches_id_def dict_has_iff map_of_fold_update split: json.splits)
next
  case False
  show ?thesis
  proof (cases "dict_has ''$inc'' u")
    case True
    with False assms show ?thesis
      by (auto simp: apply_update_def touches_id_def dict_has_iff map_of_inc_fields split: json.splits)
  next
    case ninc: False
    with False assms show ?thesis
      by (auto simp: apply_update_def update_conv' split: option.splits)
  qed
qed

lemma update_loop_documents:
  "update_loop q u now i docs st = (r, st') \<Longrightarrow> documents st' = documents st"
proof (induction docs arbitrary: i st r st')
  case Nil
  then show ?case by simp
next
  case (Cons d docs)
  show ?case
  proof (cases q)
    case None
    with Cons.prems show ?thesis by simp
  next
    case (Some qq)
    show ?thesis
    proof (cases "matches qq d")
      case False
      obtain r1 s1 where rec: "update_loop q u now (Suc i) docs st = (r1, s1)"
        by (cases "update_loop q u now (Suc i) docs st")
      from Cons.IH[OF rec] Cons.prems Some False rec show ?thesis
        by (auto split: sum.splits prod.splits)
    next
      case True
      show ?thesis
      proof (cases "apply_update u d")
        case (Inl e)
        with Cons.prems Some True show ?thesis by simp
      next
        case (Inr d1)
        let ?d2 = "AList.update ''_updated_at'' (JStr (now i)) d1"
        show ?thesis
        proof (cases "map_of ?d2 ''_id''")
          case None
          with Cons.prems Some True Inr show ?thesis by (simp add: Let_def)
        next
          case (Some ni)
          obtain e0 s0 where ui: "update_indices st ni d ?d2 = (e0, s0)"
            by (cases "update_indices st ni d ?d2")
          have d0: "documents s0 = documents st"
            using documents_update_indices[of st ni d ?d2] ui by simp
          show ?thesis
          proof (cases e0)
            case (Some e)
            with Cons.prems \<open>q = Some qq\<close> True Inr \<open>map_of ?d2 ''_id'' = Some ni\<close> ui d0
            show ?thesis by (simp add: Let_def)
          next
            case None
            obtain r1 s1 where rec: "update_loop q u now (Suc i) docs s0 = (r1, s1)"
              by (cases "update_loop q u now (Suc i) docs s0")
            from Cons.IH[OF rec] Cons.prems \<open>q = Some qq\<close> True Inr
              \<open>map_of ?d2 ''_id'' = Some ni\<close> ui None rec d0
            show ?thesis
              by (auto simp: Let_def split: sum.splits prod.splits)
          qed
        qed
      qed
    qed
  qed
qed

lemma update_loop_doc_ids:
  "update_loop q u now i docs st = (Inr (ds, n), st') \<Longrightarrow> \<not> touches_id u \<Longrightarrow>
   doc_ids ds = doc_ids docs"
proof (induction docs arbitrary: i st ds n st')
  case Nil
  then show ?case by (simp add: doc_ids_def)
next
  case (Cons d docs)
  show ?case
  proof (cases q)
    case None
    with Cons.prems show ?thesis by simp
  next
    case (Some qq)
    show ?thesis
    proof (cases "matches qq d")
      case False
      obtain r1 s1 where rec: "update_loop q u now (Suc i) docs st = (r1, s1)"
        by (cases "update_loop q u now (Suc i) docs st")
      from Cons.prems Some False rec obtain ds1 n1 where
        r1: "r1 = Inr (ds1, n1)" and ds: "ds = d # ds1"
        by (auto split: sum.splits prod.splits)
      from Cons.IH[OF rec[unfolded r1] Cons.prems(2)] ds show ?thesis
        by (simp add: doc_ids_def)
    next
      case True
      show ?thesis
      proof (cases "apply_update u d")
        case (Inl e)
        with Cons.prems Some True show ?thesis by simp
      next
        case (Inr d1)
        let ?d2 = "AList.update ''_updated_at'' (JStr (now i)) d1"
        have id2: "map_of ?d2 ''_id'' = map_of d ''_id''"
          using apply_update_id[OF Cons.prems(2) Inr] by (simp add: update_conv')
        show ?thesis
        proof (cases "map_of ?d2 ''_id''")
          case None
          with Cons.prems Some True Inr show ?thesis by (simp add: Let_def)
        next
          case (Some ni)
          obtain e0 s0 where ui: "update_indices st ni d ?d2 = (e0, s0)"
            by (cases "update_indices st ni d ?d2")
          show ?thesis
          proof (cases e0)
            case (Some e)
            with Cons.prems \<open>q = Some qq\<close> True Inr \<open>map_of ?d2 ''_id'' = Some ni\<close> ui
            show ?thesis by (simp add: Let_def)
          next
            case None
            obtain r1 s1 where rec: "update_loop q u now (Suc i) docs s0 = (r1, s1)"
              by (cases "update_loop q u now (Suc i) docs s0")
            from Cons.prems \<open>q = Some qq\<close> True Inr \<open>map_of ?d2 ''_id'' = Some ni\<close> ui None rec
            obtain ds1 n1 where r1: "r1 = Inr (ds1, n1)" and ds: "ds = ?d2 # ds1"
              by (auto simp: Let_def split: sum.splits prod.splits)
            from Cons.IH[OF rec[unfolded r1] Cons.prems(2)] ds id2 show ?thesis
              by (simp add: dict_get_def doc_ids_def)
          qed
        qed
      qed
    qed
  qed
qed

lemma update_doc_ids:
  assumes "\<not> touches_id u"
  shows "doc_ids (documents (snd (update st q u now))) = doc_ids (documents st)"
proof -
  obtain r st' where loop: "update_loop q u now 0 (documents st) st = (r, st')"
    by (cases "update_loop q u now 0 (documents st) st")
  have docs: "documents st' = documents st"
    by (rule update_loop_documents[OF loop])
  show ?thesis
  proof (cases r)
    case (Inl e)
    with loop docs show ?thesis by (simp add: update_def)
  next
    case (Inr p)
    obtain ds n where p: "p = (ds, n)" by (cases p)
    from update_loop_doc_ids[OF loop[unfolded Inr p] assms] loop Inr p docs
    show ?thesis by (simp add: update_def)
  qed
qed

lemma remove_deleted_documents:
  "remove_deleted dels st = (r, st') \<Longrightarrow> documents st' = documents st"
proof (induction dels arbitrary: st)
  case Nil
  then show ?case by simp
next
  case (Cons d dels)
  show ?case
  proof (cases "map_of d ''_id''")
    case None
    with Cons.prems show ?thesis by simp
  next
    case (Some i)
    obtain e0 s0 where ri: "remove_from_indices st i d = (e0, s0)"
      by (cases "remove_from_indices st i d")
    have d0: "documents s0 = documents st"
      using documents_remove_from_indices[of st i d] ri by simp
    show ?thesis
    proof (cases e0)
      case None
      with Cons.prems Some ri have "remove_deleted dels s0 = (r, st')" by simp
      from Cons.IH[OF this] d0 show ?thesis by simp
    next
      case (Some e)
      with Cons.prems \<open>map_of d ''_id'' = Some i\<close> ri d0 show ?thesis by simp
    qed
  qed
qed

lemma delete_documents:
  "documents (snd (delete st q)) = documents st \<or>
   (\<exists>qq. q = Some qq \<and> documents (snd (delete st q)) = filter (\<lambda>d. \<not> matches qq d) (documents st))"
proof (cases q)
  case None
  then show ?thesis by (simp add: delete_def)
next
  case (Some qq)
  let ?new = "filter (\<lambda>d. \<not> matches qq d) (documents st)"
  obtain r st' where rd: "remove_deleted (filter (matches qq) (documents st)) (st\<lparr>documents := ?new\<rparr>) = (r, st')"
    by (cases "remove_deleted (filter (matches qq) (documents st)) (st\<lparr>documents := ?new\<rparr>)")
  from remove_deleted_documents[OF rd] have "documents st' = ?new" by simp
  with Some rd show ?thesis
    by (auto simp: delete_def Let_def split: option.splits)
qed

section \<open>Rebuilding an index from the documents\<close>

lemma bucket_update [simp]: "bucket (AList.update k v ix) k' = (if k' = k then v else bucket ix k')"
  by (simp add: bucket_def update_conv')

lemma bucket_Nil [simp]: "bucket [] k = []"
  by (simp add: bucket_def)




















lemma has_null_iff:
  "dict_has f d \<and> dict_get d f = JNull \<longleftrightarrow> map_of d f = Some JNull"
  by (auto simp: dict_has_def dict_get_def split: option.splits)

section \<open>The claims\<close>

text \<open>
  C1 (round trip). \<^verbatim>\<open>insert\<close> returns \<^verbatim>\<open>document.id\<close>, which \<^verbatim>\<open>Collection.insert\<close>
  always lets \<^verbatim>\<open>Document.__init__\<close> generate, while the stored \<^verbatim>\<open>_id\<close> is the caller's
  when the mapping has one. On a new collection, inserting \<^verbatim>\<open>{"_id": "mine"}\<close> returns
  the generated id, the stored document bears \<^verbatim>\<open>"mine"\<close>, and finding by the returned id
  gives no document.
\<close>

theorem insert_supplied_id_not_found:
  "(let (r, st) = insert_doc new_collection (Dict [(''_id'', JStr ''mine'')]) ''u1'' ''t1'' ''t2''
    in r = Inr ''u1'' \<and>
       documents st =
         [[(''_id'', JStr ''mine''), (''_created_at'', JStr ''t1''), (''_updated_at'', JStr ''t2'')]] \<and>
       (case r of
          Inl e \<Rightarrow> False
        | Inr i \<Rightarrow> find_docs st (Some [(''_id'', JStr i)]) = Inr []))"
  by code_simp

text \<open>
  C2 (index transparency). With an index on \<^verbatim>\<open>a\<close>, a document inserted with
  \<^verbatim>\<open>{"a": null}\<close> is not filed (\<^verbatim>\<open>Index.add\<close> returns on \<^verbatim>\<open>None\<close>), but
  \<^verbatim>\<open>find({"a": null})\<close> looks the key \<^verbatim>\<open>"None"\<close> up and returns early with nothing;
  once the index is dropped the same query returns the document. Likewise a document
  whose \<^verbatim>\<open>a\<close> is set to the empty string by an update is not filed by \<^verbatim>\<open>Index.update\<close>
  (the key is tested for truth), and is found only without the index.
\<close>

theorem find_differs_with_index:
  "(let (r0, st0) = create_index new_collection ''a'';
        (r1, st1) = insert_doc st0 (Dict [(''a'', JNull)]) ''u1'' ''t1'' ''t2'';
        (b, st2) = drop_index st1 ''a''
    in r0 = Inr True \<and> r1 = Inr ''u1'' \<and> b \<and> documents st2 = documents st1 \<and>
       find_docs st1 (Some [(''a'', JNull)]) = Inr [] \<and>
       find_docs st2 (Some [(''a'', JNull)]) =
         Inr [[(''a'', JNull), (''_id'', JStr ''u1''), (''_created_at'', JStr ''t1''),
               (''_updated_at'', JStr ''t2'')]]) \<and>
   (let (r0, st0) = create_index new_collection ''a'';
        (r1, st1) = insert_doc st0 (Dict [(''a'', JStr ''x'')]) ''u1'' ''t1'' ''t2'';
        (r, st2) = update st1 (Some [(''a'', JStr ''x'')])
                     [(''$set'', JObj [(''a'', JStr '''')])] (\<lambda>n. ''t3'');
        (b, st3) = drop_index st2 ''a''
    in r0 = Inr True \<and> r1 = Inr ''u1'' \<and> r = Inr 1 \<and> b \<and> documents st3 = documents st2 \<and>
       find_docs st2 (Some [(''a'', JStr '''')]) = Inr [] \<and>
       find_docs st3 (Some [(''a'', JStr '''')]) =
         Inr [[(''a'', JStr ''''), (''_id'', JStr ''u1''), (''_created_at'', JStr ''t1''),
               (''_updated_at'', JStr ''t3'')]])"
  by code_simp

text \<open>
  C3 (index-state invariant). The mutations do not keep the invariant. With an index on
  \<^verbatim>\<open>a\<close>: a document inserted with \<^verbatim>\<open>{"a": null}\<close> has the field, and its id is in no
  bucket (\<^verbatim>\<open>Index.add\<close> returns on \<^verbatim>\<open>None\<close>), whereas the scan of \<^verbatim>\<open>_build_index\<close>
  files it under \<^verbatim>\<open>"None"\<close>; a document whose \<^verbatim>\<open>a\<close> is set to the empty string is taken
  out of its old bucket and filed nowhere (\<^verbatim>\<open>Index.update\<close> tests the key for truth),
  whereas \<^verbatim>\<open>Index.add\<close> files the empty string; and a document whose \<^verbatim>\<open>a\<close> is changed
  from the empty string to \<^verbatim>\<open>"y"\<close> is then in two buckets. With an index on
  \<^verbatim>\<open>a/b\<close>, whose file cannot be written, and after it one on \<^verbatim>\<open>c\<close>: the insert of
  \<^verbatim>\<open>{"a/b": 1, "c": 2}\<close> raises after the document is stored, and the index on \<^verbatim>\<open>c\<close>
  is not reached.
\<close>

theorem index_invariant_broken:
  "(let (r0, st0) = create_index new_collection ''a'';
        (r1, st1) = insert_doc st0 (Dict [(''a'', JNull)]) ''u1'' ''t1'' ''t2''
    in r0 = Inr True \<and> r1 = Inr ''u1'' \<and>
       map (dict_has ''a'') (documents st1) = [True] \<and>
       doc_ids (documents st1) = [JStr ''u1''] \<and>
       indices st1 = [(''a'', [])] \<and>
       find_by_index st1 ''a'' JNull = [] \<and>
       build_index (documents st1) ''a'' = [(''None'', [JStr ''u1''])]) \<and>
   (let (r0, st0) = create_index new_collection ''a'';
        (r1, st1) = insert_doc st0 (Dict [(''a'', JStr ''x'')]) ''u1'' ''t1'' ''t2'';
        (r2, st2) = update st1 (Some [(''a'', JStr ''x'')])
                      [(''$set'', JObj [(''a'', JStr '''')])] (\<lambda>n. ''t3'');
        (r3, st3) = insert_doc st0 (Dict [(''a'', JStr '''')]) ''u1'' ''t1'' ''t2''
    in r1 = Inr ''u1'' \<and> indices st1 = [(''a'', [(''x'', [JStr ''u1''])])] \<and>
       r2 = Inr 1 \<and> map (\<lambda>d. dict_get d ''a'') (documents st2) = [JStr ''''] \<and>
       doc_ids (documents st2) = [JStr ''u1''] \<and>
       indices st2 = [(''a'', [])] \<and>
       r3 = Inr ''u1'' \<and> indices st3 = [(''a'', [('''', [JStr ''u1''])])]) \<and>
   (let (r0, st0) = create_index new_collection ''a'';
        (r1, st1) = insert_doc st0 (Dict [(''a'', JStr '''')]) ''u1'' ''t1'' ''t2'';
        (r2, st2) = update st1 (Some [(''a'', JStr '''')])
                      [(''$set'', JObj [(''a'', JStr ''y'')])] (\<lambda>n. ''t3'')
    in r2 = Inr 1 \<and> map (\<lambda>d. dict_get d ''a'') (documents st2) = [JStr ''y''] \<and>
       doc_ids (documents st2) = [JStr ''u1''] \<and>
       indices st2 = [(''a'', [('''', [JStr ''u1'']), (''y'', [JStr ''u1''])])]) \<and>
   (let (r0, st0) = create_index new_collection ''a/b'';
        (r1, st1) = create_index st0 ''c'';
        (r2, st2) = insert_doc st1 (Dict [(''a/b'', JInt 1), (''c'', JInt 2)]) ''u1'' ''t1'' ''t2''
    in r0 = Inr True \<and> r1 = Inr True \<and> list_indices st1 = [''a/b'', ''c''] \<and>
       r2 = Inl FileNotFoundError \<and>
       documents st2 =
         [[(''a/b'', JInt 1), (''c'', JInt 2), (''_id'', JStr ''u1''),
           (''_created_at'', JStr ''t1''), (''_updated_at'', JStr ''t2'')]] \<and>
       indices st2 = [(''a/b'', [(''1'', [JStr ''u1''])]), (''c'', [])] \<and>
       find_by_index st2 ''c'' (JInt 2) = [])"
  by code_simp

text \<open>
  C4 (update without operator). The branch runs \<^verbatim>\<open>doc.update(update)\<close>, which merges:
  updating the document \<^verbatim>\<open>{"a": 1, "b": 2}\<close> with \<^verbatim>\<open>{"c": 3}\<close> keeps \<^verbatim>\<open>a\<close> and
  \<^verbatim>\<open>b\<close> beside the new \<^verbatim>\<open>c\<close>; \<^verbatim>\<open>_id\<close> is kept as well.
\<close>

theorem update_without_operator_merges:
  "(let (r1, st1) = insert_doc new_collection (Dict [(''a'', JInt 1), (''b'', JInt 2)]) ''u1'' ''t1'' ''t2'';
        (r, st2) = update st1 (Some [(''a'', JInt 1)]) [(''c'', JInt 3)] (\<lambda>n. ''t3'')
    in r1 = Inr ''u1'' \<and> r = Inr 1 \<and>
       documents st2 =
         [[(''a'', JInt 1), (''b'', JInt 2), (''_id'', JStr ''u1''), (''_created_at'', JStr ''t1''),
           (''_updated_at'', JStr ''t3''), (''c'', JInt 3)]])"
  by code_simp

text \<open>
  C10 (delete with an empty query). For \<^verbatim>\<open>None\<close> and for the empty dict,
  \<^verbatim>\<open>delete\<close> returns 0 and leaves the documents, the indices and the index files as
  they are, whereas \<^verbatim>\<open>find\<close> returns every stored document.
\<close>

theorem delete_empty_query_noop:
  "delete self None = (Inr 0, self) \<and> delete self (Some []) = (Inr 0, self) \<and>
   find_docs self None = Inr (documents self) \<and> find_docs self (Some []) = Inr (documents self)"
  by (simp add: delete_def find_docs_def)

text \<open>
  C8 (null against absent). On an empty collection without index on \<^verbatim>\<open>a\<close>, after
  inserting \<^verbatim>\<open>{"a": null}\<close> and \<^verbatim>\<open>{}\<close>, \<^verbatim>\<open>find({"a": null})\<close> returns exactly the
  first document (with its three reserved fields), whatever ids and clock readings the
  two inserts drew. In general, for every state and every field: without index on the
  field, \<^verbatim>\<open>find({field: null})\<close> returns exactly the stored documents in which the field
  is present with the value \<^verbatim>\<open>None\<close>; and with or without index, every document it
  returns is a stored document in which the field is present with the value \<^verbatim>\<open>None\<close>,
  so a document that lacks the field, or holds another value in it, is never returned.
\<close>

theorem null_vs_absent:
  "(documents self = [] \<and> ''a'' \<notin> set (list_indices self) \<longrightarrow>
      (let (i1, st1) = insert_doc self (Dict [(''a'', JNull)]) u1 t1 t2;
           (i2, st2) = insert_doc st1 (Dict []) u2 t3 t4
       in find_docs st2 (Some [(''a'', JNull)]) =
            Inr [[(''a'', JNull), (''_id'', JStr u1), (''_created_at'', JStr t1),
                  (''_updated_at'', JStr t2)]])) \<and>
   (field \<notin> set (list_indices st) \<longrightarrow>
      find_docs st (Some [(field, JNull)]) =
        Inr (filter (\<lambda>doc. map_of doc field = Some JNull) (documents st))) \<and>
   (\<forall>rs doc. find_docs st (Some [(field, JNull)]) = Inr rs \<longrightarrow> doc \<in> set rs \<longrightarrow>
      doc \<in> set (documents st) \<and> map_of doc field = Some JNull)"
proof (intro conjI impI allI)
  assume empty: "documents self = [] \<and> ''a'' \<notin> set (list_indices self)"
  obtain i1 st1 where 1: "insert_doc self (Dict [(''a'', JNull)]) u1 t1 t2 = (i1, st1)"
    by (cases "insert_doc self (Dict [(''a'', JNull)]) u1 t1 t2")
  obtain i2 st2 where 2: "insert_doc st1 (Dict []) u2 t3 t4 = (i2, st2)"
    by (cases "insert_doc st1 (Dict []) u2 t3 t4")
  have l: "list_indices st2 = list_indices self"
    using list_indices_insert_doc[of st1 "Dict []" u2 t3 t4]
      list_indices_insert_doc[of self "Dict [(''a'', JNull)]" u1 t1 t2]
    by (simp add: 1 2)
  have d1: "documents st1 = [[(''a'', JNull), (''_id'', JStr u1), (''_created_at'', JStr t1),
                     (''_updated_at'', JStr t2)]]"
    using documents_insert_doc[of self "[(''a'', JNull)]" u1 t1 t2] empty
    by (simp add: 1 new_document_def dict_has_def)
  have d2: "documents st2 = documents st1 @ [[(''_id'', JStr u2), (''_created_at'', JStr t3),
                     (''_updated_at'', JStr t4)]]"
    using documents_insert_doc[of st1 "[]" u2 t3 t4]
    by (simp add: 2 new_document_def dict_has_def)
  have "find_docs st2 (Some [(''a'', JNull)]) = Inr (filter (matches [(''a'', JNull)]) (documents st2))"
    using empty l by (simp add: find_docs_unindexed)
  then show "(let (i1, st1) = insert_doc self (Dict [(''a'', JNull)]) u1 t1 t2;
              (i2, st2) = insert_doc st1 (Dict []) u2 t3 t4
          in find_docs st2 (Some [(''a'', JNull)]) =
               Inr [[(''a'', JNull), (''_id'', JStr u1), (''_created_at'', JStr t1),
                     (''_updated_at'', JStr t2)]])"
    by (simp add: 1 2 d1 d2 dict_has_def dict_get_def)
next
  assume "field \<notin> set (list_indices st)"
  then show "find_docs st (Some [(field, JNull)]) =
              Inr (filter (\<lambda>doc. map_of doc field = Some JNull) (documents st))"
    by (simp add: find_docs_unindexed has_null_iff cong: filter_cong)
next
  fix rs doc
  assume r: "find_docs st (Some [(field, JNull)]) = Inr rs" and d: "doc \<in> set rs"
  from find_docs_sound[OF r] d
  have "doc \<in> set (documents st) \<and> matches [(field, JNull)] doc" by auto
  then show "doc \<in> set (documents st)" "map_of doc field = Some JNull"
    by (simp_all add: has_null_iff)
qed

theorem null_vs_absent_witness:
  "(let (i1, st1) = insert_doc (snd (create_index new_collection ''b'')) (Dict [(''a'', JNull)])
                      ''u1'' ''t1'' ''t2'';
        (i2, st2) = insert_doc st1 (Dict []) ''u2'' ''t3'' ''t4''
    in find_docs st2 (Some [(''a'', JNull)]) =
         Inr [[(''a'', JNull), (''_id'', JStr ''u1''), (''_created_at'', JStr ''t1''),
               (''_updated_at'', JStr ''t2'')]]) \<and>
   (let st = \<lparr>documents = [[(''_id'', JStr ''u1'')], [(''a'', JNull), (''_id'', JStr ''u2'')],
                            [(''a'', JInt 0), (''_id'', JStr ''u3'')]],
              idx_files = [], unwritable = [], indices = []\<rparr>
    in find_docs st (Some [(''a'', JNull)]) = Inr [[(''a'', JNull), (''_id'', JStr ''u2'')]])"
proof -
  let ?cur = "\<lparr>documents = [[(''_id'', JStr ''u1'')], [(''a'', JNull), (''_id'', JStr ''u2'')],
                            [(''a'', JInt 0), (''_id'', JStr ''u3'')]],
              idx_files = [], unwritable = [], indices = []\<rparr>"
  have h1: "documents (snd (create_index new_collection ''b'')) = [] \<and>
            ''a'' \<notin> set (list_indices (snd (create_index new_collection ''b'')))"
    by code_simp
  have h3: "''a'' \<notin> set (list_indices ?cur)"
    by code_simp
  from null_vs_absent[of "snd (create_index new_collection ''b'')"
      "''u1''" "''t1''" "''t2''" "''u2''" "''t3''" "''t4''" "''a''" ?cur] h1 h3
  have a: "(let (i1, st1) = insert_doc (snd (create_index new_collection ''b'')) (Dict [(''a'', JNull)])
                      ''u1'' ''t1'' ''t2'';
        (i2, st2) = insert_doc st1 (Dict []) ''u2'' ''t3'' ''t4''
    in find_docs st2 (Some [(''a'', JNull)]) =
         Inr [[(''a'', JNull), (''_id'', JStr ''u1''), (''_created_at'', JStr ''t1''),
               (''_updated_at'', JStr ''t2'')]])"
    and b: "find_docs ?cur (Some [(''a'', JNull)]) =
              Inr (filter (\<lambda>doc. map_of doc ''a'' = Some JNull) (documents ?cur))"
    by blast+
  from b have "find_docs ?cur (Some [(''a'', JNull)]) = Inr [[(''a'', JNull), (''_id'', JStr ''u2'')]]"
    by simp
  with a show ?thesis
    unfolding Let_def by blast
qed

text \<open>
  C5 (comparison operators). The query evaluator has no operators: a clause
  \<^verbatim>\<open>{field: {$op: value}}\<close> is compared by equality with the nested object itself.
  On a field without index such a query returns exactly the stored documents whose value
  of the field is equal to the object \<^verbatim>\<open>{$op: value}\<close>; with or without index, every
  document it returns is a stored document whose value of the field is equal to that
  object.
\<close>

theorem comparison_clause_is_equality:
  "(field \<notin> set (list_indices self) \<longrightarrow>
      find_docs self (Some [(field, JObj [(opr, v)])]) =
        Inr (filter (\<lambda>doc. dict_has field doc \<and> py_eq (dict_get doc field) (JObj [(opr, v)]))
               (documents self))) \<and>
   (\<forall>rs doc. find_docs self (Some [(field, JObj [(opr, v)])]) = Inr rs \<longrightarrow> doc \<in> set rs \<longrightarrow>
      doc \<in> set (documents self) \<and> dict_has field doc \<and>
      py_eq (dict_get doc field) (JObj [(opr, v)]))"
proof (intro conjI impI allI)
  assume "field \<notin> set (list_indices self)"
  then show "find_docs self (Some [(field, JObj [(opr, v)])]) =
        Inr (filter (\<lambda>doc. dict_has field doc \<and> py_eq (dict_get doc field) (JObj [(opr, v)]))
               (documents self))"
    by (simp add: find_docs_unindexed cong: filter_cong)
next
  fix rs doc
  assume r: "find_docs self (Some [(field, JObj [(opr, v)])]) = Inr rs" and d: "doc \<in> set rs"
  from find_docs_sound[OF r] d
  have "doc \<in> set (documents self) \<and> matches [(field, JObj [(opr, v)])] doc" by auto
  then show "doc \<in> set (documents self)" "dict_has field doc"
    "py_eq (dict_get doc field) (JObj [(opr, v)])"
    by simp_all
qed

text \<open>The document with \<^verbatim>\<open>age\<close> 25 is not returned for \<^verbatim>\<open>{"age": {"$lt": 30}}\<close>.\<close>

theorem comparison_clause_counterexample:
  "(let (i, st) = insert_doc new_collection (Dict [(''age'', JInt 25)]) ''u1'' ''t1'' ''t2''
    in map (\<lambda>d. dict_get d ''age'') (documents st) = [JInt 25] \<and> (25 :: int) < 30 \<and>
       find_docs st (Some [(''age'', JObj [(''$lt'', JInt 30)])]) = Inr [])"
  by code_simp

theorem comparison_clause_witness:
  "(let (i, st) = insert_doc new_collection
                    (Dict [(''age'', JObj [(''$lt'', JInt 30)])]) ''u1'' ''t1'' ''t2''
    in find_docs st (Some [(''age'', JObj [(''$lt'', JInt 30)])]) = Inr (documents st) \<and>
       documents st \<noteq> [])"
proof -
  let ?cur = "\<lparr>documents = [[(''age'', JObj [(''$lt'', JInt 30)]), (''_id'', JStr ''u1''),
       (''_created_at'', JStr ''t1''), (''_updated_at'', JStr ''t2'')]],
       idx_files = [], unwritable = [], indices = []\<rparr>"
  have st: "insert_doc new_collection
              (Dict [(''age'', JObj [(''$lt'', JInt 30)])]) ''u1'' ''t1'' ''t2'' = (Inr ''u1'', ?cur)"
    by code_simp
  have h: "''age'' \<notin> set (list_indices ?cur)"
    by code_simp
  from comparison_clause_is_equality[of "''age''" ?cur "''$lt''" "JInt 30"] h
  have "find_docs ?cur (Some [(''age'', JObj [(''$lt'', JInt 30)])]) =
        Inr (filter (\<lambda>doc. dict_has ''age'' doc \<and>
                           py_eq (dict_get doc ''age'') (JObj [(''$lt'', JInt 30)]))
               (documents ?cur))" by blast
  then show ?thesis
    by (simp add: st dict_has_def dict_get_def)
qed

text \<open>
  C6 (uniqueness of \<^verbatim>\<open>_id\<close>). No operation checks an \<^verbatim>\<open>_id\<close> against the stored ones.
  The document that \<^verbatim>\<open>insert\<close> builds from a mapping is stored under the mapping's own
  \<^verbatim>\<open>_id\<close> when it has one and under the generated id otherwise. When the stored
  \<^verbatim>\<open>_id\<close> values are pairwise different, they are so after the insert exactly when no
  stored document bears that \<^verbatim>\<open>_id\<close>: a supplied \<^verbatim>\<open>_id\<close> that is not in use keeps
  them different, and a supplied or generated one that is in use always stores a second
  document with it. They stay pairwise different after every delete, and an update that
  does not assign \<^verbatim>\<open>_id\<close> through \<^verbatim>\<open>$set\<close> or \<^verbatim>\<open>$inc\<close> (an update without operator
  never does) leaves the list of \<^verbatim>\<open>_id\<close> values as it is. All this holds also when an
  index save raises, since the documents are written before the indices are visited.
\<close>

theorem id_uniqueness_preserved:
  "doc_ids (documents (snd (insert_doc self (Dict d) uuid4 now1 now2))) =
     doc_ids (documents self) @ [stored_id d uuid4] \<and>
   (distinct (doc_ids (documents self)) \<longrightarrow>
      (distinct (doc_ids (documents (snd (insert_doc self (Dict d) uuid4 now1 now2)))) \<longleftrightarrow>
         stored_id d uuid4 \<notin> set (doc_ids (documents self))) \<and>
      distinct (doc_ids (documents (snd (delete self query2))))) \<and>
   (\<not> touches_id upd \<longrightarrow>
      doc_ids (documents (snd (update self query upd now))) = doc_ids (documents self))"
proof -
  have ins: "doc_ids (documents (snd (insert_doc self (Dict d) uuid4 now1 now2))) =
           doc_ids (documents self) @ [stored_id d uuid4]"
    by (auto simp: documents_insert_doc doc_ids_def stored_id_def dict_get_def
        map_of_new_document dict_has_def)
  have upd: "doc_ids (documents (snd (update self query upd now))) = doc_ids (documents self)"
    if "\<not> touches_id upd"
    using that by (rule update_doc_ids)
  have del: "distinct (doc_ids (documents (snd (delete self query2))))"
    if "distinct (doc_ids (documents self))"
    using delete_documents[of self query2] that
    by (auto simp: doc_ids_def distinct_map_filter)
  from ins upd del show ?thesis
    by simp
qed

text \<open>Inserting \<^verbatim>\<open>{"_id": "x"}\<close> twice stores two documents with the \<^verbatim>\<open>_id\<close>
  \<^verbatim>\<open>"x"\<close>; and on two documents with different ids, the update
  \<^verbatim>\<open>{"$set": {"_id": "z"}}\<close> with the query \<^verbatim>\<open>{}\<close> gives both the \<^verbatim>\<open>_id\<close> \<^verbatim>\<open>"z"\<close>.\<close>

theorem id_uniqueness_counterexample:
  "(let (i1, st1) = insert_doc new_collection (Dict [(''_id'', JStr ''x'')]) ''u1'' ''t1'' ''t2'';
        (i2, st2) = insert_doc st1 (Dict [(''_id'', JStr ''x'')]) ''u2'' ''t3'' ''t4'';
        (i3, st3) = insert_doc st1 (Dict []) ''u2'' ''t3'' ''t4'';
        (r4, st4) = update st3 (Some []) [(''$set'', JObj [(''_id'', JStr ''z'')])] (\<lambda>n. ''t5'')
    in doc_ids (documents st1) = [JStr ''x''] \<and> i2 = Inr ''u2'' \<and>
       doc_ids (documents st2) = [JStr ''x'', JStr ''x''] \<and>
       doc_ids (documents st3) = [JStr ''x'', JStr ''u2''] \<and> r4 = Inr 2 \<and>
       doc_ids (documents st4) = [JStr ''z'', JStr ''z''])"
  by code_simp

theorem id_uniqueness_witness:
  "(let st = \<lparr>documents =
                [[(''a'', JInt 1), (''_id'', JStr ''u1''), (''_created_at'', JStr ''t1''),
                  (''_updated_at'', JStr ''t1'')],
                 [(''a'', JInt 2), (''_id'', JStr ''u2''), (''_created_at'', JStr ''t2''),
                  (''_updated_at'', JStr ''t2'')]],
              idx_files = [], unwritable = [], indices = []\<rparr>
    in distinct (doc_ids (documents (snd (insert_doc st (Dict [(''_id'', JStr ''mine'')])
                                            ''u3'' ''t3'' ''t3'')))) \<and>
       \<not> distinct (doc_ids (documents (snd (insert_doc st (Dict [(''_id'', JStr ''u1'')])
                                              ''u3'' ''t3'' ''t3'')))) \<and>
       doc_ids (documents (snd (update st (Some [(''a'', JInt 1)]) [(''_id'', JStr ''u2'')]
                                  (\<lambda>n. ''t4'')))) = doc_ids (documents st) \<and>
       distinct (doc_ids (documents (snd (delete st (Some [(''a'', JInt 1)]))))))"
proof -
  let ?cur = "\<lparr>documents =
                [[(''a'', JInt 1), (''_id'', JStr ''u1''), (''_created_at'', JStr ''t1''),
                  (''_updated_at'', JStr ''t1'')],
                 [(''a'', JInt 2), (''_id'', JStr ''u2''), (''_created_at'', JStr ''t2''),
                  (''_updated_at'', JStr ''t2'')]],
              idx_files = [], unwritable = [], indices = []\<rparr>"
  have h: "distinct (doc_ids (documents ?cur))"
    by code_simp
  have h1: "stored_id [(''_id'', JStr ''mine'')] ''u3'' \<notin> set (doc_ids (documents ?cur))"
    by code_simp
  have h2: "\<not> touches_id [(''_id'', JStr ''u2'')]"
    by code_simp
  have h3: "\<not> stored_id [(''_id'', JStr ''u1'')] ''u3'' \<notin> set (doc_ids (documents ?cur))"
    by code_simp
  from id_uniqueness_preserved[of ?cur "[(''_id'', JStr ''mine'')]" "''u3''" "''t3''" "''t3''"
      "Some [(''a'', JInt 1)]" "[(''_id'', JStr ''u2'')]" "Some [(''a'', JInt 1)]" "\<lambda>n. ''t4''"] h h1 h2
  have a: "distinct (doc_ids (documents (snd (insert_doc ?cur (Dict [(''_id'', JStr ''mine'')])
                                            ''u3'' ''t3'' ''t3''))))"
    and b: "doc_ids (documents (snd (update ?cur (Some [(''a'', JInt 1)]) [(''_id'', JStr ''u2'')]
                                  (\<lambda>n. ''t4'')))) = doc_ids (documents ?cur)"
    and c: "distinct (doc_ids (documents (snd (delete ?cur (Some [(''a'', JInt 1)])))))"
    by blast+
  from id_uniqueness_preserved[of ?cur "[(''_id'', JStr ''u1'')]" "''u3''" "''t3''" "''t3''"] h h3
  have e: "\<not> distinct (doc_ids (documents (snd (insert_doc ?cur (Dict [(''_id'', JStr ''u1'')])
                                              ''u3'' ''t3'' ''t3''))))"
    by blast
  from a e b c show ?thesis
    unfolding Let_def by blast
qed




end
